theory Spec2Isabelle
  imports Complex_Main
begin

section \<open>Status and StatusOr (tink/util/status.h, statusor.h)\<close>

text \<open>
  The error codes of \<^verbatim>\<open>util::error::Code\<close> that the JWT sources use. A \<^verbatim>\<open>util::Status\<close> is a
  code with a message; \<^verbatim>\<open>util::StatusOr<T>\<close> is either a non-OK status or a value.
\<close>

datatype error_code = OK | INVALID_ARGUMENT | NOT_FOUND

datatype Status = Status (error_code: error_code) (error_message: string)

type_synonym 'a StatusOr = "Status + 'a"

definition OkStatus :: Status where
  "OkStatus = Status OK []"

definition ok :: "Status \<Rightarrow> bool" where
  "ok status = (error_code status = OK)"

section \<open>JSON values (google::protobuf::Struct and Value)\<close>

text \<open>
  \<^verbatim>\<open>google::protobuf::Value\<close> is a tagged union; a default-constructed value has no kind set.
  \<^verbatim>\<open>Struct::fields\<close> is an unordered map from names to values. A JSON number is a C++
  \<^verbatim>\<open>double\<close>; it is modelled by the real number it denotes (the time setters below only store
  32-bit integers, which a double represents exactly).
\<close>

type_synonym double = real

datatype Value =
    KindNotSet
  | NullValue
  | NumberValue double
  | StringValue string
  | BoolValue bool
  | StructValue "string \<Rightarrow> Value option"
  | ListValue "Value list"

type_synonym Struct = "string \<Rightarrow> Value option"

datatype KindCase =
  KIND_NOT_SET | kNullValue | kNumberValue | kStringValue | kBoolValue | kStructValue | kListValue

fun kind_case :: "Value \<Rightarrow> KindCase" where
  "kind_case KindNotSet = KIND_NOT_SET"
| "kind_case NullValue = kNullValue"
| "kind_case (NumberValue d) = kNumberValue"
| "kind_case (StringValue s) = kStringValue"
| "kind_case (BoolValue b) = kBoolValue"
| "kind_case (StructValue fs) = kStructValue"
| "kind_case (ListValue vs) = kListValue"

text \<open>The protobuf accessors return the type's default when another kind is stored.\<close>

fun string_value :: "Value \<Rightarrow> string" where
  "string_value (StringValue s) = s"
| "string_value v = []"

fun number_value :: "Value \<Rightarrow> double" where
  "number_value (NumberValue d) = d"
| "number_value v = 0"

fun bool_value :: "Value \<Rightarrow> bool" where
  "bool_value (BoolValue b) = b"
| "bool_value v = False"

fun list_value :: "Value \<Rightarrow> Value list" where
  "list_value (ListValue vs) = vs"
| "list_value v = []"

fun struct_value :: "Value \<Rightarrow> Struct" where
  "struct_value (StructValue fs) = fs"
| "struct_value v = Map.empty"

section \<open>Timestamps (absl::Time)\<close>

text \<open>
  An \<^verbatim>\<open>absl::Time\<close> is a duration since the Unix epoch, kept as whole seconds \<^verbatim>\<open>rep_hi\<close>
  (an \<^verbatim>\<open>int64_t\<close>) and a non-negative fraction \<^verbatim>\<open>rep_lo\<close> counted in ticks of a quarter of a
  nanosecond. \<^verbatim>\<open>absl::ToUnixSeconds\<close> rounds toward negative infinity: it returns \<^verbatim>\<open>rep_hi\<close>.
\<close>

record Time =
  rep_hi :: int
  rep_lo :: nat

definition kTicksPerSecond :: nat where
  "kTicksPerSecond = 4000000000"

definition valid_Time :: "Time \<Rightarrow> bool" where
  "valid_Time t = (- (2 ^ 63) \<le> rep_hi t \<and> rep_hi t < 2 ^ 63 \<and> rep_lo t < kTicksPerSecond)"

definition unix_time :: "Time \<Rightarrow> real" where
  "unix_time t = real_of_int (rep_hi t) + real (rep_lo t) / real kTicksPerSecond"

definition ToUnixSeconds :: "Time \<Rightarrow> int" where
  "ToUnixSeconds t = rep_hi t"

definition FromUnixSeconds :: "int \<Rightarrow> Time" where
  "FromUnixSeconds seconds = \<lparr>rep_hi = seconds, rep_lo = 0\<rparr>"

text \<open>
  \<^verbatim>\<open>static_cast<int>\<close> of an \<^verbatim>\<open>int64_t\<close>: \<^verbatim>\<open>int\<close> has 32 bits on the platforms the library
  builds for, and the conversion keeps the low 32 bits in two's complement.
\<close>

definition static_cast_int :: "int \<Rightarrow> int" where
  "static_cast_int x = (x + 2 ^ 31) mod 2 ^ 32 - 2 ^ 31"

text \<open>
  The implicit conversion of a \<^verbatim>\<open>double\<close> to the \<^verbatim>\<open>int64_t\<close> parameter of
  \<^verbatim>\<open>absl::FromUnixSeconds\<close> truncates toward zero. For a value whose truncation is outside
  the range of \<^verbatim>\<open>int64_t\<close> C++ leaves the result undefined; the conversion instruction of
  x86-64 returns the smallest \<^verbatim>\<open>int64_t\<close> there, and the model does the same.
\<close>

definition double_to_int64 :: "double \<Rightarrow> int" where
  "double_to_int64 d =
     (let z = (if 0 \<le> d then \<lfloor>d\<rfloor> else \<lceil>d\<rceil>)
      in if - (2 ^ 63) \<le> z \<and> z < 2 ^ 63 then z else - (2 ^ 63))"

section \<open>Claim names (tink/jwt/jwt_names.h)\<close>

text \<open>
  Modelled from the spec: the header \<^verbatim>\<open>jwt_names.h\<close> with the constants \<^verbatim>\<open>kJwtClaim...\<close> is
  not among the sources; the spec gives the registered names as exactly
  iss, sub, aud, exp, nbf, iat, jti.
\<close>

definition kJwtClaimIssuer :: string where "kJwtClaimIssuer = ''iss''"
definition kJwtClaimSubject :: string where "kJwtClaimSubject = ''sub''"
definition kJwtClaimAudience :: string where "kJwtClaimAudience = ''aud''"
definition kJwtClaimExpiration :: string where "kJwtClaimExpiration = ''exp''"
definition kJwtClaimNotBefore :: string where "kJwtClaimNotBefore = ''nbf''"
definition kJwtClaimIssuedAt :: string where "kJwtClaimIssuedAt = ''iat''"
definition kJwtClaimJwtId :: string where "kJwtClaimJwtId = ''jti''"

section \<open>JSON text codec (tink/jwt/internal/json_util.h)\<close>

text \<open>
  The JSON parser and printer of \<^verbatim>\<open>json_util\<close> are not among the sources. The functions of
  \<^verbatim>\<open>raw_jwt.cc\<close> that call them take them as a parameter.
\<close>

record json_util =
  JsonStringToProtoStruct :: "string \<Rightarrow> Struct StatusOr"
  JsonStringToProtoList :: "string \<Rightarrow> Value list StatusOr"
  ProtoStructToJsonString :: "Struct \<Rightarrow> string StatusOr"
  ProtoListToJsonString :: "Value list \<Rightarrow> string StatusOr"

section \<open>RawJwt (tink/jwt/raw_jwt.cc)\<close>

definition IsRegisteredClaimName :: "string \<Rightarrow> bool" where
  "IsRegisteredClaimName name =
     (name = kJwtClaimIssuer \<or> name = kJwtClaimSubject \<or>
      name = kJwtClaimAudience \<or> name = kJwtClaimExpiration \<or>
      name = kJwtClaimNotBefore \<or> name = kJwtClaimIssuedAt \<or>
      name = kJwtClaimJwtId)"

definition quoted :: "string \<Rightarrow> string" where
  "quoted name = [CHR 0x27] @ name @ [CHR 0x27]"

definition ValidatePayloadName :: "string \<Rightarrow> Status" where
  "ValidatePayloadName name =
     (if IsRegisteredClaimName name
      then Status INVALID_ARGUMENT
             (''claim '' @ quoted name @ '' is invalid because it'' @ [CHR 0x27] @
              ''s a registered name; use the corresponding getter or setter method.'')
      else OkStatus)"

datatype RawJwt = RawJwt (json_proto: Struct)

definition hasClaimOfKind :: "Struct \<Rightarrow> string \<Rightarrow> KindCase \<Rightarrow> bool" where
  "hasClaimOfKind json name kind =
     (if IsRegisteredClaimName name then False
      else case json name of
             None \<Rightarrow> False
           | Some v \<Rightarrow> kind_case v = kind)"

definition FromString :: "json_util \<Rightarrow> string \<Rightarrow> RawJwt StatusOr" where
  "FromString J json_string =
     (case JsonStringToProtoStruct J json_string of
        Inl status \<Rightarrow> Inl status
      | Inr proto \<Rightarrow> Inr (RawJwt proto))"

definition ToString :: "json_util \<Rightarrow> RawJwt \<Rightarrow> string StatusOr" where
  "ToString J jwt = ProtoStructToJsonString J (json_proto jwt)"

definition HasIssuer :: "RawJwt \<Rightarrow> bool" where
  "HasIssuer jwt = (json_proto jwt kJwtClaimIssuer \<noteq> None)"

definition GetIssuer :: "RawJwt \<Rightarrow> string StatusOr" where
  "GetIssuer jwt =
     (case json_proto jwt kJwtClaimIssuer of
        None \<Rightarrow> Inl (Status INVALID_ARGUMENT ''No Issuer found'')
      | Some v \<Rightarrow>
          if kind_case v \<noteq> kStringValue
          then Inl (Status INVALID_ARGUMENT ''Issuer is not a string'')
          else Inr (string_value v))"

definition HasSubject :: "RawJwt \<Rightarrow> bool" where
  "HasSubject jwt = (json_proto jwt kJwtClaimSubject \<noteq> None)"

definition GetSubject :: "RawJwt \<Rightarrow> string StatusOr" where
  "GetSubject jwt =
     (case json_proto jwt kJwtClaimSubject of
        None \<Rightarrow> Inl (Status INVALID_ARGUMENT ''No Subject found'')
      | Some v \<Rightarrow>
          if kind_case v \<noteq> kStringValue
          then Inl (Status INVALID_ARGUMENT ''Subject is not a string'')
          else Inr (string_value v))"

definition HasAudiences :: "RawJwt \<Rightarrow> bool" where
  "HasAudiences jwt = (json_proto jwt kJwtClaimAudience \<noteq> None)"

text \<open>The loop of \<^verbatim>\<open>GetAudiences\<close> over the stored list, with the vector built so far.\<close>

fun collect_audiences :: "Value list \<Rightarrow> string list \<Rightarrow> string list StatusOr" where
  "collect_audiences [] audiences = Inr audiences"
| "collect_audiences (v # values) audiences =
     (if kind_case v \<noteq> kStringValue
      then Inl (Status INVALID_ARGUMENT ''Audiences is not a list of strings'')
      else collect_audiences values (audiences @ [string_value v]))"

definition GetAudiences :: "RawJwt \<Rightarrow> string list StatusOr" where
  "GetAudiences jwt =
     (case json_proto jwt kJwtClaimAudience of
        None \<Rightarrow> Inl (Status NOT_FOUND ''No Audiences found'')
      | Some list \<Rightarrow>
          if kind_case list \<noteq> kListValue
          then Inl (Status INVALID_ARGUMENT ''Audiences is not a list'')
          else collect_audiences (list_value list) [])"

definition HasJwtId :: "RawJwt \<Rightarrow> bool" where
  "HasJwtId jwt = (json_proto jwt kJwtClaimJwtId \<noteq> None)"

definition GetJwtId :: "RawJwt \<Rightarrow> string StatusOr" where
  "GetJwtId jwt =
     (case json_proto jwt kJwtClaimJwtId of
        None \<Rightarrow> Inl (Status NOT_FOUND ''No JwtId found'')
      | Some v \<Rightarrow>
          if kind_case v \<noteq> kStringValue
          then Inl (Status INVALID_ARGUMENT ''JwtId is not a string'')
          else Inr (string_value v))"

definition HasExpiration :: "RawJwt \<Rightarrow> bool" where
  "HasExpiration jwt = (json_proto jwt kJwtClaimExpiration \<noteq> None)"

definition GetExpiration :: "RawJwt \<Rightarrow> Time StatusOr" where
  "GetExpiration jwt =
     (case json_proto jwt kJwtClaimExpiration of
        None \<Rightarrow> Inl (Status NOT_FOUND ''No Expiration found'')
      | Some v \<Rightarrow>
          if kind_case v \<noteq> kNumberValue
          then Inl (Status INVALID_ARGUMENT ''Expiration is not a number'')
          else Inr (FromUnixSeconds (double_to_int64 (number_value v))))"

definition HasNotBefore :: "RawJwt \<Rightarrow> bool" where
  "HasNotBefore jwt = (json_proto jwt kJwtClaimNotBefore \<noteq> None)"

definition GetNotBefore :: "RawJwt \<Rightarrow> Time StatusOr" where
  "GetNotBefore jwt =
     (case json_proto jwt kJwtClaimNotBefore of
        None \<Rightarrow> Inl (Status NOT_FOUND ''No NotBefore found'')
      | Some v \<Rightarrow>
          if kind_case v \<noteq> kNumberValue
          then Inl (Status INVALID_ARGUMENT ''NotBefore is not a number'')
          else Inr (FromUnixSeconds (double_to_int64 (number_value v))))"

definition HasIssuedAt :: "RawJwt \<Rightarrow> bool" where
  "HasIssuedAt jwt = (json_proto jwt kJwtClaimIssuedAt \<noteq> None)"

definition GetIssuedAt :: "RawJwt \<Rightarrow> Time StatusOr" where
  "GetIssuedAt jwt =
     (case json_proto jwt kJwtClaimIssuedAt of
        None \<Rightarrow> Inl (Status NOT_FOUND ''No IssuedAt found'')
      | Some v \<Rightarrow>
          if kind_case v \<noteq> kNumberValue
          then Inl (Status INVALID_ARGUMENT ''IssuedAt is not a number'')
          else Inr (FromUnixSeconds (double_to_int64 (number_value v))))"

section \<open>RawJwtBuilder (tink/jwt/raw_jwt.cc)\<close>

text \<open>
  The builder owns the JSON object under construction. The setters for registered claims return
  the builder itself (\<^verbatim>\<open>RawJwtBuilder&\<close>): they have no error result. The adders for custom
  claims return a \<^verbatim>\<open>util::Status\<close> and change the builder only when they succeed; they are
  modelled as returning the status together with the builder after the call.
\<close>

datatype RawJwtBuilder = RawJwtBuilder (builder_json_proto: Struct)

definition SetIssuer :: "string \<Rightarrow> RawJwtBuilder \<Rightarrow> RawJwtBuilder" where
  "SetIssuer issuer b =
     RawJwtBuilder ((builder_json_proto b)(kJwtClaimIssuer \<mapsto> StringValue issuer))"

definition SetSubject :: "string \<Rightarrow> RawJwtBuilder \<Rightarrow> RawJwtBuilder" where
  "SetSubject subject b =
     RawJwtBuilder ((builder_json_proto b)(kJwtClaimSubject \<mapsto> StringValue subject))"

text \<open>
  \<^verbatim>\<open>AddAudience\<close> inserts an unset value under \<^verbatim>\<open>aud\<close> unless the key is there already;
  \<^verbatim>\<open>mutable_list_value\<close> turns a value of another kind into an empty list before appending.
\<close>

definition AddAudience :: "string \<Rightarrow> RawJwtBuilder \<Rightarrow> RawJwtBuilder" where
  "AddAudience audience b =
     (let fields = builder_json_proto b;
          current = (case fields kJwtClaimAudience of None \<Rightarrow> KindNotSet | Some v \<Rightarrow> v)
      in RawJwtBuilder
           (fields(kJwtClaimAudience \<mapsto> ListValue (list_value current @ [StringValue audience]))))"

definition SetJwtId :: "string \<Rightarrow> RawJwtBuilder \<Rightarrow> RawJwtBuilder" where
  "SetJwtId jwid b =
     RawJwtBuilder ((builder_json_proto b)(kJwtClaimJwtId \<mapsto> StringValue jwid))"

definition SetExpiration :: "Time \<Rightarrow> RawJwtBuilder \<Rightarrow> RawJwtBuilder" where
  "SetExpiration expiration b =
     RawJwtBuilder ((builder_json_proto b)(kJwtClaimExpiration \<mapsto>
       NumberValue (real_of_int (static_cast_int (ToUnixSeconds expiration)))))"

definition SetNotBefore :: "Time \<Rightarrow> RawJwtBuilder \<Rightarrow> RawJwtBuilder" where
  "SetNotBefore notBefore b =
     RawJwtBuilder ((builder_json_proto b)(kJwtClaimNotBefore \<mapsto>
       NumberValue (real_of_int (static_cast_int (ToUnixSeconds notBefore)))))"

definition SetIssuedAt :: "Time \<Rightarrow> RawJwtBuilder \<Rightarrow> RawJwtBuilder" where
  "SetIssuedAt issuedAt b =
     RawJwtBuilder ((builder_json_proto b)(kJwtClaimIssuedAt \<mapsto>
       NumberValue (real_of_int (static_cast_int (ToUnixSeconds issuedAt)))))"

definition AddNullClaim :: "string \<Rightarrow> RawJwtBuilder \<Rightarrow> Status \<times> RawJwtBuilder" where
  "AddNullClaim name b =
     (let status = ValidatePayloadName name in
      if \<not> ok status then (status, b)
      else (OkStatus, RawJwtBuilder ((builder_json_proto b)(name \<mapsto> NullValue))))"

definition AddBooleanClaim :: "string \<Rightarrow> bool \<Rightarrow> RawJwtBuilder \<Rightarrow> Status \<times> RawJwtBuilder" where
  "AddBooleanClaim name bool_val b =
     (let status = ValidatePayloadName name in
      if \<not> ok status then (status, b)
      else (OkStatus, RawJwtBuilder ((builder_json_proto b)(name \<mapsto> BoolValue bool_val))))"

definition AddStringClaim :: "string \<Rightarrow> string \<Rightarrow> RawJwtBuilder \<Rightarrow> Status \<times> RawJwtBuilder" where
  "AddStringClaim name string_val b =
     (let status = ValidatePayloadName name in
      if \<not> ok status then (status, b)
      else (OkStatus, RawJwtBuilder ((builder_json_proto b)(name \<mapsto> StringValue string_val))))"

definition AddNumberClaim :: "string \<Rightarrow> double \<Rightarrow> RawJwtBuilder \<Rightarrow> Status \<times> RawJwtBuilder" where
  "AddNumberClaim name double_val b =
     (let status = ValidatePayloadName name in
      if \<not> ok status then (status, b)
      else (OkStatus, RawJwtBuilder ((builder_json_proto b)(name \<mapsto> NumberValue double_val))))"

definition AddJsonObjectClaim ::
  "json_util \<Rightarrow> string \<Rightarrow> string \<Rightarrow> RawJwtBuilder \<Rightarrow> Status \<times> RawJwtBuilder" where
  "AddJsonObjectClaim J name object_value b =
     (let status = ValidatePayloadName name in
      if \<not> ok status then (status, b)
      else case JsonStringToProtoStruct J object_value of
             Inl parse_status \<Rightarrow> (parse_status, b)
           | Inr proto \<Rightarrow>
               (OkStatus, RawJwtBuilder ((builder_json_proto b)(name \<mapsto> StructValue proto))))"

definition AddJsonArrayClaim ::
  "json_util \<Rightarrow> string \<Rightarrow> string \<Rightarrow> RawJwtBuilder \<Rightarrow> Status \<times> RawJwtBuilder" where
  "AddJsonArrayClaim J name array_value b =
     (let status = ValidatePayloadName name in
      if \<not> ok status then (status, b)
      else case JsonStringToProtoList J array_value of
             Inl parse_status \<Rightarrow> (parse_status, b)
           | Inr list \<Rightarrow>
               (OkStatus, RawJwtBuilder ((builder_json_proto b)(name \<mapsto> ListValue list))))"

definition Build :: "RawJwtBuilder \<Rightarrow> RawJwt StatusOr" where
  "Build b = Inr (RawJwt (builder_json_proto b))"

section \<open>String helpers (std::string_view, absl::StrSplit)\<close>

text \<open>
  \<^verbatim>\<open>find_last_of\<close> returns the index of the last occurrence of the character, or
  \<^verbatim>\<open>npos\<close> (here \<open>None\<close>). \<^verbatim>\<open>substr(pos, n)\<close> is the at most \<open>n\<close> characters from \<open>pos\<close> on;
  both calls below have \<open>pos\<close> within the string. \<^verbatim>\<open>absl::StrSplit\<close> with a character
  delimiter returns the pieces between the delimiters, empty pieces included, so a string
  with \<open>k\<close> delimiters gives \<open>k + 1\<close> pieces.
\<close>

fun find_last_of :: "string \<Rightarrow> char \<Rightarrow> nat option" where
  "find_last_of [] c = None"
| "find_last_of (x # xs) c =
     (case find_last_of xs c of
        Some i \<Rightarrow> Some (Suc i)
      | None \<Rightarrow> if x = c then Some 0 else None)"

definition substr :: "string \<Rightarrow> nat \<Rightarrow> nat \<Rightarrow> string" where
  "substr s pos n = take n (drop pos s)"

definition substr_from :: "string \<Rightarrow> nat \<Rightarrow> string" where
  "substr_from s pos = drop pos s"

fun StrSplit :: "string \<Rightarrow> char \<Rightarrow> string list" where
  "StrSplit [] d = [[]]"
| "StrSplit (x # xs) d =
     (if x = d then [] # StrSplit xs d
      else case StrSplit xs d of
             [] \<Rightarrow> [[x]]
           | p # ps \<Rightarrow> (x # p) # ps)"

section \<open>Collaborators of JwtMacImpl\<close>

text \<open>
  \<^verbatim>\<open>jwt_format.h\<close> (header construction and validation, base64url coding of the three
  segments), the \<^verbatim>\<open>Mac\<close> primitive and \<^verbatim>\<open>JwtValidator\<close> are not among the sources.
  \<^verbatim>\<open>JwtMacImpl\<close> reaches them through the interfaces below, and its two functions take them
  as parameters. The decoders return \<^verbatim>\<open>bool\<close> and write through a pointer: \<open>None\<close> is
  \<^verbatim>\<open>false\<close>.
\<close>

record jwt_format =
  CreateHeader :: "string \<Rightarrow> string"
  ValidateHeader :: "string \<Rightarrow> string \<Rightarrow> Status"
  EncodePayload :: "string \<Rightarrow> string"
  DecodePayload :: "string \<Rightarrow> string option"
  EncodeSignature :: "string \<Rightarrow> string"
  DecodeSignature :: "string \<Rightarrow> string option"

record Mac =
  ComputeMac :: "string \<Rightarrow> string StatusOr"
  VerifyMac :: "string \<Rightarrow> string \<Rightarrow> Status"

record JwtValidator =
  Validate :: "RawJwt \<Rightarrow> Status"

datatype VerifiedJwt = VerifiedJwt (verified_raw_jwt: RawJwt)

section \<open>JwtMacImpl (tink/jwt/internal/jwt_mac_impl.cc)\<close>

record JwtMacImpl =
  mac :: Mac
  algorithm :: string

definition ComputeMacAndEncode ::
  "jwt_format \<Rightarrow> json_util \<Rightarrow> JwtMacImpl \<Rightarrow> RawJwt \<Rightarrow> string StatusOr" where
  "ComputeMacAndEncode F J this token =
     (let encoded_header = CreateHeader F (algorithm this) in
      case ToString J token of
        Inl status \<Rightarrow> Inl status
      | Inr payload \<Rightarrow>
          let encoded_payload = EncodePayload F payload;
              unsigned_token = encoded_header @ ''.'' @ encoded_payload
          in case ComputeMac (mac this) unsigned_token of
               Inl status \<Rightarrow> Inl status
             | Inr tag \<Rightarrow> Inr (unsigned_token @ ''.'' @ EncodeSignature F tag))"

definition VerifyMacAndDecode ::
  "jwt_format \<Rightarrow> json_util \<Rightarrow> JwtMacImpl \<Rightarrow> string \<Rightarrow> JwtValidator \<Rightarrow> VerifiedJwt StatusOr" where
  "VerifyMacAndDecode F J this compact_token validator =
     (case find_last_of compact_token (CHR ''.'') of
        None \<Rightarrow> Inl (Status INVALID_ARGUMENT ''invalid token'')
      | Some mac_pos \<Rightarrow>
          let unsigned_token = substr compact_token 0 mac_pos in
          case DecodeSignature F (substr_from compact_token (mac_pos + 1)) of
            None \<Rightarrow> Inl (Status INVALID_ARGUMENT ''invalid JWT MAC'')
          | Some mac_value \<Rightarrow>
              let verify_result = VerifyMac (mac this) mac_value unsigned_token in
              if \<not> ok verify_result then Inl verify_result
              else
                let parts = StrSplit unsigned_token (CHR ''.'') in
                if length parts \<noteq> 2
                then Inl (Status INVALID_ARGUMENT
                       ''only tokens in JWS compact serialization format are supported'')
                else
                  let validate_header_result = ValidateHeader F (parts ! 0) (algorithm this) in
                  if \<not> ok validate_header_result then Inl validate_header_result
                  else
                    case DecodePayload F (parts ! 1) of
                      None \<Rightarrow> Inl (Status INVALID_ARGUMENT ''invalid JWT payload'')
                    | Some json_payload \<Rightarrow>
                        (case FromString J json_payload of
                           Inl status \<Rightarrow> Inl status
                         | Inr raw_jwt \<Rightarrow>
                             let validate_result = Validate validator raw_jwt in
                             if \<not> ok validate_result then Inl validate_result
                             else Inr (VerifiedJwt raw_jwt)))"

section \<open>Base64url codec\<close>

text \<open>
  Modelled from the spec: the base64url codec behind \<^verbatim>\<open>EncodeHeader\<close>, \<^verbatim>\<open>EncodePayload\<close>,
  \<^verbatim>\<open>EncodeSignature\<close> and their decoders (\<^verbatim>\<open>jwt_format.cc\<close>, not among the sources). Section
  4.1 of the spec: encoding emits the alphabet A-Z a-z 0-9 - _ without padding; decoding
  accepts that alphabet and a trailing run of \<open>=\<close>, fails on any other character, and fails
  when the length after stripping the padding is 1 modulo 4. A final group of two or three
  characters carries 12 or 18 bits for one or two bytes: the low 4 or 2 bits are not part of
  any byte, and the spec puts no condition on them.
\<close>

text \<open>
  Modelled from the spec: the alphabet of section 4.1, in the order of its 64 values.
\<close>

definition base64url_alphabet :: string where
  "base64url_alphabet = ''ABCDEFGHIJKLMNOPQRSTUVWXYZabcdefghijklmnopqrstuvwxyz0123456789-_''"

text \<open>
  Modelled from the spec: the character for the low six bits of a number.
\<close>

definition base64url_digit :: "nat \<Rightarrow> char" where
  "base64url_digit n = base64url_alphabet ! (n mod 64)"

text \<open>
  Modelled from the spec: the byte made of the low eight bits of a number.
\<close>

definition byte_of_nat :: "nat \<Rightarrow> char" where
  "byte_of_nat n =
     Char (odd n) (odd (n div 2)) (odd (n div 4)) (odd (n div 8))
          (odd (n div 16)) (odd (n div 32)) (odd (n div 64)) (odd (n div 128))"

text \<open>
  Modelled from the spec: encoding (section 4.1). Three bytes give four characters; a rest of
  two bytes gives three characters and a rest of one byte gives two, with the unused low
  bits zero and no padding.
\<close>

fun base64url_encode :: "string \<Rightarrow> string" where
  "base64url_encode (a # b # c # rest) =
     (let n = (of_char a * 256 + of_char b) * 256 + of_char c in
      base64url_digit (n div 262144) # base64url_digit (n div 4096) #
      base64url_digit (n div 64) # base64url_digit n # base64url_encode rest)"
| "base64url_encode [a, b] =
     (let n = (of_char a * 256 + of_char b) * 4 in
      [base64url_digit (n div 4096), base64url_digit (n div 64), base64url_digit n])"
| "base64url_encode [a] =
     (let n = of_char a * 16 in [base64url_digit (n div 64), base64url_digit n])"
| "base64url_encode [] = []"

text \<open>
  Modelled from the spec: the value of a character of the alphabet; any other character has none.
\<close>

definition base64url_value :: "char \<Rightarrow> nat option" where
  "base64url_value c =
     (let n = of_char c :: nat in
      if 65 \<le> n \<and> n \<le> 90 then Some (n - 65)
      else if 97 \<le> n \<and> n \<le> 122 then Some (n - 71)
      else if 48 \<le> n \<and> n \<le> 57 then Some (n + 4)
      else if c = CHR ''-'' then Some 62
      else if c = CHR ''_'' then Some 63
      else None)"

text \<open>
  Modelled from the spec: the values of a string, if all its characters are in the alphabet.
\<close>

fun base64url_values :: "string \<Rightarrow> nat list option" where
  "base64url_values [] = Some []"
| "base64url_values (c # cs) =
     (case base64url_value c of
        None \<Rightarrow> None
      | Some v \<Rightarrow> (case base64url_values cs of None \<Rightarrow> None | Some vs \<Rightarrow> Some (v # vs)))"

text \<open>
  Modelled from the spec: the bytes of a sequence of values (section 4.1). Four values give
  three bytes; a final group of three values gives two bytes and one of two values gives one
  byte; a final group of a single value is refused.
\<close>

fun base64url_bytes :: "nat list \<Rightarrow> string option" where
  "base64url_bytes (p # q # r # s # rest) =
     (case base64url_bytes rest of
        None \<Rightarrow> None
      | Some bytes \<Rightarrow>
          let n = ((p * 64 + q) * 64 + r) * 64 + s in
          Some (byte_of_nat (n div 65536) # byte_of_nat (n div 256) # byte_of_nat n # bytes))"
| "base64url_bytes [p, q, r] =
     (let n = (p * 64 + q) * 64 + r in Some [byte_of_nat (n div 1024), byte_of_nat (n div 4)])"
| "base64url_bytes [p, q] = (let n = p * 64 + q in Some [byte_of_nat (n div 16)])"
| "base64url_bytes [p] = None"
| "base64url_bytes [] = Some []"

text \<open>
  Modelled from the spec: the string without its trailing run of \<open>=\<close>, which may be empty.
\<close>

definition strip_padding :: "string \<Rightarrow> string" where
  "strip_padding s = rev (dropWhile (\<lambda>c. c = CHR ''='') (rev s))"

text \<open>
  Modelled from the spec: decoding (section 4.1).
\<close>

definition base64url_decode :: "string \<Rightarrow> string option" where
  "base64url_decode s =
     (case base64url_values (strip_padding s) of
        None \<Rightarrow> None
      | Some vs \<Rightarrow> base64url_bytes vs)"

section \<open>Header construction and validation\<close>

text \<open>
  Modelled from the spec: \<^verbatim>\<open>CreateHeader\<close> and \<^verbatim>\<open>ValidateHeader\<close> of \<^verbatim>\<open>jwt_format.cc\<close>
  (not among the sources), after section 4.4 of the spec. The header is the JSON object with
  \<^verbatim>\<open>alg\<close> and \<^verbatim>\<open>typ\<close>, base64url-encoded. Validation decodes, parses a JSON object, requires
  \<^verbatim>\<open>typ\<close>, if present, to be JWT, requires \<^verbatim>\<open>alg\<close> to be the expected algorithm and rejects
  \<^verbatim>\<open>crit\<close>. The spec's error kinds are carried in the message of the status.
\<close>

text \<open>
  Modelled from the spec: \<^verbatim>\<open>create_header(alg)\<close> of section 4.4, the base64url encoding of
  the JSON object with \<^verbatim>\<open>alg\<close> and \<^verbatim>\<open>typ\<close>.
\<close>

definition spec_CreateHeader :: "string \<Rightarrow> string" where
  \<open>spec_CreateHeader alg = base64url_encode (''{"alg":"'' @ alg @ ''","typ":"JWT"}'')\<close>

text \<open>
  Modelled from the spec: \<^verbatim>\<open>validate_header(encoded_header, expected_alg)\<close>, steps 1 to 6 of section 4.4.
\<close>

definition spec_ValidateHeader :: "json_util \<Rightarrow> string \<Rightarrow> string \<Rightarrow> Status" where
  "spec_ValidateHeader J encoded_header expected_alg =
     (case base64url_decode encoded_header of
        None \<Rightarrow> Status INVALID_ARGUMENT ''MalformedToken''
      | Some json \<Rightarrow>
          (case JsonStringToProtoStruct J json of
             Inl status \<Rightarrow> Status INVALID_ARGUMENT ''MalformedToken''
           | Inr header \<Rightarrow>
               if header ''typ'' \<noteq> None \<and> header ''typ'' \<noteq> Some (StringValue ''JWT'')
               then Status INVALID_ARGUMENT ''InvalidHeader''
               else if header ''alg'' \<noteq> Some (StringValue expected_alg)
               then Status INVALID_ARGUMENT ''AlgorithmMismatch''
               else if header ''crit'' \<noteq> None
               then Status INVALID_ARGUMENT ''InvalidHeader''
               else OkStatus))"

text \<open>
  Modelled from the spec: the functions of \<^verbatim>\<open>jwt_format.h\<close> together; the three segments
  share the one codec.
\<close>

definition spec_jwt_format :: "json_util \<Rightarrow> jwt_format" where
  "spec_jwt_format J =
     \<lparr>CreateHeader = spec_CreateHeader,
      ValidateHeader = spec_ValidateHeader J,
      EncodePayload = base64url_encode,
      DecodePayload = base64url_decode,
      EncodeSignature = base64url_encode,
      DecodeSignature = base64url_decode\<rparr>"

section \<open>Validator\<close>

text \<open>
  Modelled from the spec: \<^verbatim>\<open>JwtValidator::Validate\<close> (\<^verbatim>\<open>jwt_validator.cc\<close>, not among the
  sources), after section 4.8 of the spec: the expiration and not-before checks with clock
  skew against the fixed or current time, then the expected issuer, subject and audience,
  then the type of \<^verbatim>\<open>iat\<close>. The clock skew is in whole seconds; the second argument of
  \<open>spec_Validate\<close> is the reading of the real clock, used when no fixed time is set.
\<close>

text \<open>
  Modelled from the spec: the options of the validator (the table of section 4.8).
\<close>

record validator_policy =
  expected_issuer :: "string option"
  expected_subject :: "string option"
  expected_audience :: "string option"
  clock_skew :: int
  fixed_now :: "Time option"
  allow_missing_expiration :: bool

text \<open>
  Modelled from the spec: the order of timestamps and the shift by whole seconds that the time checks use.
\<close>

definition time_less :: "Time \<Rightarrow> Time \<Rightarrow> bool" where
  "time_less a b = (rep_hi a < rep_hi b \<or> (rep_hi a = rep_hi b \<and> rep_lo a < rep_lo b))"

definition add_seconds :: "Time \<Rightarrow> int \<Rightarrow> Time" where
  "add_seconds t d = t\<lparr>rep_hi := rep_hi t + d\<rparr>"

text \<open>
  Modelled from the spec: step 1 of \<^verbatim>\<open>validate\<close> (section 4.8).
\<close>

definition check_expiration :: "validator_policy \<Rightarrow> Time \<Rightarrow> RawJwt \<Rightarrow> Status" where
  "check_expiration policy now jwt =
     (if HasExpiration jwt
      then case GetExpiration jwt of
             Inl status \<Rightarrow> status
           | Inr expiration \<Rightarrow>
               if time_less now (add_seconds expiration (clock_skew policy)) then OkStatus
               else Status INVALID_ARGUMENT ''TokenExpired''
      else if allow_missing_expiration policy then OkStatus
      else Status INVALID_ARGUMENT ''TokenExpired'')"

text \<open>
  Modelled from the spec: step 2 of \<^verbatim>\<open>validate\<close>.
\<close>

definition check_not_before :: "validator_policy \<Rightarrow> Time \<Rightarrow> RawJwt \<Rightarrow> Status" where
  "check_not_before policy now jwt =
     (if HasNotBefore jwt
      then case GetNotBefore jwt of
             Inl status \<Rightarrow> status
           | Inr not_before \<Rightarrow>
               if time_less now (add_seconds not_before (- clock_skew policy))
               then Status INVALID_ARGUMENT ''NotYetValid''
               else OkStatus
      else OkStatus)"

text \<open>
  Modelled from the spec: step 3 of \<^verbatim>\<open>validate\<close>.
\<close>

definition check_issuer :: "validator_policy \<Rightarrow> RawJwt \<Rightarrow> Status" where
  "check_issuer policy jwt =
     (case expected_issuer policy of
        None \<Rightarrow> OkStatus
      | Some issuer \<Rightarrow>
          if GetIssuer jwt = Inr issuer then OkStatus
          else Status INVALID_ARGUMENT ''IssuerMismatch'')"

text \<open>
  Modelled from the spec: step 4 of \<^verbatim>\<open>validate\<close>.
\<close>

definition check_subject :: "validator_policy \<Rightarrow> RawJwt \<Rightarrow> Status" where
  "check_subject policy jwt =
     (case expected_subject policy of
        None \<Rightarrow> OkStatus
      | Some subject \<Rightarrow>
          if GetSubject jwt = Inr subject then OkStatus
          else Status INVALID_ARGUMENT ''SubjectMismatch'')"

text \<open>
  Modelled from the spec: step 5 of \<^verbatim>\<open>validate\<close>.
\<close>

definition check_audience :: "validator_policy \<Rightarrow> RawJwt \<Rightarrow> Status" where
  "check_audience policy jwt =
     (case expected_audience policy of
        None \<Rightarrow> OkStatus
      | Some audience \<Rightarrow>
          (case GetAudiences jwt of
             Inl status \<Rightarrow> Status INVALID_ARGUMENT ''AudienceMismatch''
           | Inr audiences \<Rightarrow>
               if audience \<in> set audiences then OkStatus
               else Status INVALID_ARGUMENT ''AudienceMismatch''))"

text \<open>
  Modelled from the spec: step 6 of \<^verbatim>\<open>validate\<close>, the type of \<^verbatim>\<open>iat\<close>.
\<close>

definition check_issued_at :: "RawJwt \<Rightarrow> Status" where
  "check_issued_at jwt =
     (if HasIssuedAt jwt
      then case GetIssuedAt jwt of Inl status \<Rightarrow> status | Inr issued_at \<Rightarrow> OkStatus
      else OkStatus)"

text \<open>
  Modelled from the spec: the checks run in order and the first failure is the result.
\<close>

fun first_failure :: "Status list \<Rightarrow> Status" where
  "first_failure [] = OkStatus"
| "first_failure (status # rest) = (if ok status then first_failure rest else status)"

text \<open>
  Modelled from the spec: \<^verbatim>\<open>validate(raw_jwt, now)\<close> of section 4.8.
\<close>

definition spec_Validate :: "validator_policy \<Rightarrow> Time \<Rightarrow> RawJwt \<Rightarrow> Status" where
  "spec_Validate policy clock jwt =
     (let now = (case fixed_now policy of Some t \<Rightarrow> t | None \<Rightarrow> clock) in
      first_failure
        [check_expiration policy now jwt, check_not_before policy now jwt,
         check_issuer policy jwt, check_subject policy jwt, check_audience policy jwt,
         check_issued_at jwt])"

text \<open>
  Modelled from the spec: the validator object for a policy.
\<close>

definition spec_validator :: "validator_policy \<Rightarrow> Time \<Rightarrow> JwtValidator" where
  "spec_validator policy clock = \<lparr>Validate = spec_Validate policy clock\<rparr>"

section \<open>MAC primitive of the examples\<close>

text \<open>
  Modelled from the spec: the MAC primitive of sections 4.5 and 6 (\<^verbatim>\<open>HmacBoringSsl\<close> is not
  among the sources): an object made from a key and a tag length, whose \<^verbatim>\<open>compute\<close> returns a
  tag of that length and whose \<^verbatim>\<open>verify\<close> recomputes the tag and compares. The hash is
  replaced by a checksum of key and message. The theorems below hold for every \<open>Mac\<close>; this
  one only instantiates them in examples, which need a primitive that accepts the tags it
  computes, not a secure one.
\<close>

text \<open>
  Modelled from the spec: \<^verbatim>\<open>compute\<close> of the MAC primitive (section 4.5), with a checksum
  in place of the hash: a tag of the requested length.
\<close>

definition checksum_tag :: "string \<Rightarrow> nat \<Rightarrow> string \<Rightarrow> string" where
  "checksum_tag key tag_size msg =
     (let s = sum_list (map of_char key) + sum_list (map of_char msg)
      in map (\<lambda>i. byte_of_nat (s + 7 * i)) [0..<tag_size])"

text \<open>
  Modelled from the spec: the MAC object of sections 4.5 and 6; \<^verbatim>\<open>verify\<close> recomputes the
  tag and compares, and a mismatch or a tag of another length is an error.
\<close>

definition checksum_mac :: "string \<Rightarrow> nat \<Rightarrow> Mac" where
  "checksum_mac key tag_size =
     \<lparr>ComputeMac = (\<lambda>msg. Inr (checksum_tag key tag_size msg)),
      VerifyMac = (\<lambda>tag msg.
        if tag = checksum_tag key tag_size msg then OkStatus
        else Status INVALID_ARGUMENT ''verification failed'')\<rparr>"

section \<open>Example data\<close>

text \<open>
  A token for the examples: the header for HS256, the claims \<^verbatim>\<open>exp\<close> and \<^verbatim>\<open>iss\<close> of the
  fixed token in \<^verbatim>\<open>jwt_mac_impl_test.cc\<close>, a 32-byte key and a validator
  whose fixed time is 12345, as in that test.
\<close>

definition example_header_json :: string where
  \<open>example_header_json = ''{"alg":"HS256","typ":"JWT"}''\<close>

definition example_payload_json :: string where
  \<open>example_payload_json = ''{"exp":1300819380,"iss":"joe"}''\<close>

definition example_header :: Struct where
  "example_header = Map.empty(''alg'' \<mapsto> StringValue ''HS256'', ''typ'' \<mapsto> StringValue ''JWT'')"

definition example_claims :: Struct where
  "example_claims = Map.empty(''exp'' \<mapsto> NumberValue 1300819380, ''iss'' \<mapsto> StringValue ''joe'')"

text \<open>
  Modelled from the spec: the JSON codec of section 4.2 (\<^verbatim>\<open>json_util.cc\<close> is not among the
  sources), restricted to the documents of the examples. It prints the example claims in
  minimal form, parses the two example objects, the empty object and the empty array, and
  refuses every other text.
\<close>

definition example_json_util :: json_util where
  "example_json_util =
     \<lparr>JsonStringToProtoStruct = (\<lambda>s.
        if s = example_payload_json then Inr example_claims
        else if s = example_header_json then Inr example_header
        else if s = ''{}'' then Inr Map.empty
        else Inl (Status INVALID_ARGUMENT ''invalid JSON'')),
      JsonStringToProtoList = (\<lambda>s.
        if s = ''[]'' then Inr [] else Inl (Status INVALID_ARGUMENT ''invalid JSON'')),
      ProtoStructToJsonString = (\<lambda>p.
        if p = example_claims then Inr example_payload_json
        else Inl (Status INVALID_ARGUMENT ''not an example document'')),
      ProtoListToJsonString = (\<lambda>vs.
        if vs = [] then Inr ''[]''
        else Inl (Status INVALID_ARGUMENT ''not an example document''))\<rparr>"

text \<open>
  The functions of \<^verbatim>\<open>jwt_format.h\<close> for the examples: the model above, over the example codec.
\<close>

definition example_format :: jwt_format where
  "example_format = spec_jwt_format example_json_util"

text \<open>
  A \<^verbatim>\<open>JwtMacImpl\<close> as \<^verbatim>\<open>JwtHmacKeyManager\<close> makes it for SHA256: tag size 32, algorithm HS256.
\<close>

definition example_jwt_mac :: JwtMacImpl where
  "example_jwt_mac =
     \<lparr>mac = checksum_mac ''secret-key-0123456789abcdef-0123'' 32, algorithm = ''HS256''\<rparr>"

text \<open>
  The validator of the test: no expectations, no clock skew, the fixed time 12345.
\<close>

definition example_validator :: JwtValidator where
  "example_validator =
     spec_validator
       \<lparr>expected_issuer = None, expected_subject = None, expected_audience = None,
        clock_skew = 0, fixed_now = Some (FromUnixSeconds 12345),
        allow_missing_expiration = False\<rparr>
       (FromUnixSeconds 0)"

text \<open>
  The encoded header and payload of the example token, and the token with its encoded tag.
\<close>

definition example_unsigned_token :: string where
  "example_unsigned_token =
     ''eyJhbGciOiJIUzI1NiIsInR5cCI6IkpXVCJ9.eyJleHAiOjEzMDA4MTkzODAsImlzcyI6ImpvZSJ9''"

definition example_token :: string where
  "example_token = example_unsigned_token @ ''.rLO6wcjP1t3k6_L5AAcOFRwjKjE4P0ZNVFtiaXB3foU''"

text \<open>
  The tag of the example token: the 32 bytes the MAC of the examples computes over its signing input.
\<close>

definition example_tag :: string where
  "example_tag =
     [CHR 0xAC, CHR 0xB3, CHR 0xBA, CHR 0xC1, CHR 0xC8, CHR 0xCF, CHR 0xD6, CHR 0xDD,
      CHR 0xE4, CHR 0xEB, CHR 0xF2, CHR 0xF9, CHR 0x00, CHR 0x07, CHR 0x0E, CHR 0x15,
      CHR 0x1C, CHR 0x23, CHR 0x2A, CHR 0x31, CHR 0x38, CHR 0x3F, CHR 0x46, CHR 0x4D,
      CHR 0x54, CHR 0x5B, CHR 0x62, CHR 0x69, CHR 0x70, CHR 0x77, CHR 0x7E, CHR 0x85]"

section \<open>Accessors of registered claims\<close>

lemmas claim_names =
  kJwtClaimIssuer_def kJwtClaimSubject_def kJwtClaimAudience_def kJwtClaimExpiration_def
  kJwtClaimNotBefore_def kJwtClaimIssuedAt_def kJwtClaimJwtId_def

lemma IsRegisteredClaimName_iff:
  "IsRegisteredClaimName name \<longleftrightarrow>
     name \<in> {''iss'', ''sub'', ''aud'', ''exp'', ''nbf'', ''iat'', ''jti''}"
  by (auto simp: IsRegisteredClaimName_def claim_names)

lemma ok_OkStatus: "ok OkStatus"
  by (simp add: ok_def OkStatus_def)

lemma ValidatePayloadName_registered:
  "IsRegisteredClaimName name \<Longrightarrow>
     error_code (ValidatePayloadName name) = INVALID_ARGUMENT \<and> \<not> ok (ValidatePayloadName name)"
  by (simp add: ValidatePayloadName_def ok_def)

lemma ValidatePayloadName_custom:
  "\<not> IsRegisteredClaimName name \<Longrightarrow> ValidatePayloadName name = OkStatus"
  by (simp add: ValidatePayloadName_def)

text \<open>The loop of \<^verbatim>\<open>GetAudiences\<close> returns the strings of a list of string values, in order.\<close>

lemma collect_audiences_strings:
  "collect_audiences (map StringValue auds) acc = Inr (acc @ auds)"
  by (induction auds arbitrary: acc) simp_all

text \<open>On any other list it stops at the first element that is not a string.\<close>

lemma collect_audiences_cases:
  "(\<exists>auds. vs = map StringValue auds) \<or>
     collect_audiences vs acc = Inl (Status INVALID_ARGUMENT ''Audiences is not a list of strings'')"
proof (induction vs arbitrary: acc)
  case Nil
  then show ?case by simp
next
  case (Cons v vs)
  show ?case
  proof (cases v)
    case (StringValue s)
    from Cons.IH [of "acc @ [s]"] show ?thesis
    proof
      assume "\<exists>auds. vs = map StringValue auds"
      then obtain auds where "vs = map StringValue auds" ..
      then have "v # vs = map StringValue (s # auds)" using StringValue by simp
      then show ?thesis by (intro disjI1 exI)
    next
      assume "collect_audiences vs (acc @ [s]) =
                Inl (Status INVALID_ARGUMENT ''Audiences is not a list of strings'')"
      then show ?thesis using StringValue by simp
    qed
  qed simp_all
qed

lemma collect_audiences_error:
  "\<nexists>auds. vs = map StringValue auds \<Longrightarrow>
     collect_audiences vs acc = Inl (Status INVALID_ARGUMENT ''Audiences is not a list of strings'')"
  using collect_audiences_cases [of vs acc] by simp

text \<open>
  Claim C5, as stated, fails where \<^verbatim>\<open>aud\<close> is stored as a single JSON string:
  \<^verbatim>\<open>GetAudiences\<close> tests the stored kind against \<^verbatim>\<open>kListValue\<close> first and answers
  INVALID_ARGUMENT, ``Audiences is not a list'', instead of the one-element list.
\<close>

theorem GetAudiences_single_string_counterexample:
  "GetAudiences (RawJwt (Map.empty(''aud'' \<mapsto> StringValue ''a''))) =
     Inl (Status INVALID_ARGUMENT ''Audiences is not a list'') \<and>
   GetAudiences (RawJwt (Map.empty(''aud'' \<mapsto> StringValue ''a''))) \<noteq> Inr [''a'']"
  by (simp add: GetAudiences_def claim_names)

text \<open>
  Claim C5, amended: for every claim set in which \<^verbatim>\<open>aud\<close> is stored as an array of strings,
  \<^verbatim>\<open>GetAudiences\<close> returns that list of strings; for every other stored value, a single
  string included, it fails with INVALID_ARGUMENT.
\<close>

theorem GetAudiences_list_or_InvalidArgument:
  assumes "json_proto jwt ''aud'' = Some v"
  shows "(\<forall>auds. v = ListValue (map StringValue auds) \<longrightarrow> GetAudiences jwt = Inr auds) \<and>
         ((\<nexists>auds. v = ListValue (map StringValue auds)) \<longrightarrow>
            (\<exists>msg. GetAudiences jwt = Inl (Status INVALID_ARGUMENT msg)))"
proof (intro conjI allI impI)
  fix auds assume "v = ListValue (map StringValue auds)"
  then show "GetAudiences jwt = Inr auds"
    using assms by (simp add: GetAudiences_def claim_names collect_audiences_strings)
next
  assume no: "\<nexists>auds. v = ListValue (map StringValue auds)"
  show "\<exists>msg. GetAudiences jwt = Inl (Status INVALID_ARGUMENT msg)"
  proof (cases v)
    case (ListValue vs)
    with no have "\<nexists>auds. vs = map StringValue auds" by simp
    then show ?thesis
      using assms ListValue by (simp add: GetAudiences_def claim_names collect_audiences_error)
  qed (use assms in \<open>simp_all add: GetAudiences_def claim_names\<close>)
qed

text \<open>
  The amended claim C5 at two claim sets: an array of two strings is returned as the list of
  the two; a single string is refused.
\<close>

theorem GetAudiences_list_or_InvalidArgument_witness:
  "GetAudiences (RawJwt (Map.empty(''aud'' \<mapsto> ListValue [StringValue ''a'', StringValue ''b''])))
     = Inr [''a'', ''b''] \<and>
   (\<exists>msg. GetAudiences (RawJwt (Map.empty(''aud'' \<mapsto> StringValue ''a'')))
            = Inl (Status INVALID_ARGUMENT msg))"
proof -
  have l: "json_proto (RawJwt (Map.empty(''aud'' \<mapsto> ListValue [StringValue ''a'', StringValue ''b''])))
             ''aud'' = Some (ListValue [StringValue ''a'', StringValue ''b''])"
    by simp
  have s: "json_proto (RawJwt (Map.empty(''aud'' \<mapsto> StringValue ''a''))) ''aud''
             = Some (StringValue ''a'')"
    by simp
  have n: "\<nexists>auds. StringValue ''a'' = ListValue (map StringValue auds)" by simp
  have e: "ListValue [StringValue ''a'', StringValue ''b''] = ListValue (map StringValue [''a'', ''b''])"
    by simp
  show ?thesis
    using GetAudiences_list_or_InvalidArgument [OF l, THEN conjunct1, rule_format, OF e]
      GetAudiences_list_or_InvalidArgument [OF s, THEN conjunct2, rule_format, OF n]
    by simp
qed

text \<open>
  What the seven accessors do on an absent claim: five answer NOT_FOUND, \<^verbatim>\<open>GetIssuer\<close> and
  \<^verbatim>\<open>GetSubject\<close> answer INVALID_ARGUMENT. On a claim of the wrong kind all seven answer
  INVALID_ARGUMENT.
\<close>

lemma absent_claim_NOT_FOUND:
  "json_proto jwt ''aud'' = None \<Longrightarrow> GetAudiences jwt = Inl (Status NOT_FOUND ''No Audiences found'')"
  "json_proto jwt ''jti'' = None \<Longrightarrow> GetJwtId jwt = Inl (Status NOT_FOUND ''No JwtId found'')"
  "json_proto jwt ''exp'' = None \<Longrightarrow> GetExpiration jwt = Inl (Status NOT_FOUND ''No Expiration found'')"
  "json_proto jwt ''nbf'' = None \<Longrightarrow> GetNotBefore jwt = Inl (Status NOT_FOUND ''No NotBefore found'')"
  "json_proto jwt ''iat'' = None \<Longrightarrow> GetIssuedAt jwt = Inl (Status NOT_FOUND ''No IssuedAt found'')"
  by (simp_all add: GetAudiences_def GetJwtId_def GetExpiration_def GetNotBefore_def
      GetIssuedAt_def claim_names)

lemma absent_issuer_subject_INVALID_ARGUMENT:
  "json_proto jwt ''iss'' = None \<Longrightarrow> GetIssuer jwt = Inl (Status INVALID_ARGUMENT ''No Issuer found'')"
  "json_proto jwt ''sub'' = None \<Longrightarrow> GetSubject jwt = Inl (Status INVALID_ARGUMENT ''No Subject found'')"
  by (simp_all add: GetIssuer_def GetSubject_def claim_names)

lemma wrong_kind_INVALID_ARGUMENT:
  "json_proto jwt ''iss'' = Some v \<Longrightarrow> kind_case v \<noteq> kStringValue \<Longrightarrow>
     GetIssuer jwt = Inl (Status INVALID_ARGUMENT ''Issuer is not a string'')"
  "json_proto jwt ''sub'' = Some v \<Longrightarrow> kind_case v \<noteq> kStringValue \<Longrightarrow>
     GetSubject jwt = Inl (Status INVALID_ARGUMENT ''Subject is not a string'')"
  "json_proto jwt ''aud'' = Some v \<Longrightarrow> kind_case v \<noteq> kListValue \<Longrightarrow>
     GetAudiences jwt = Inl (Status INVALID_ARGUMENT ''Audiences is not a list'')"
  "json_proto jwt ''jti'' = Some v \<Longrightarrow> kind_case v \<noteq> kStringValue \<Longrightarrow>
     GetJwtId jwt = Inl (Status INVALID_ARGUMENT ''JwtId is not a string'')"
  "json_proto jwt ''exp'' = Some v \<Longrightarrow> kind_case v \<noteq> kNumberValue \<Longrightarrow>
     GetExpiration jwt = Inl (Status INVALID_ARGUMENT ''Expiration is not a number'')"
  "json_proto jwt ''nbf'' = Some v \<Longrightarrow> kind_case v \<noteq> kNumberValue \<Longrightarrow>
     GetNotBefore jwt = Inl (Status INVALID_ARGUMENT ''NotBefore is not a number'')"
  "json_proto jwt ''iat'' = Some v \<Longrightarrow> kind_case v \<noteq> kNumberValue \<Longrightarrow>
     GetIssuedAt jwt = Inl (Status INVALID_ARGUMENT ''IssuedAt is not a number'')"
  by (simp_all add: GetIssuer_def GetSubject_def GetAudiences_def GetJwtId_def GetExpiration_def
      GetNotBefore_def GetIssuedAt_def claim_names)

text \<open>
  Claim C6 says that every accessor of a registered claim fails with NOT_FOUND when the claim
  is absent. On the empty claim set \<^verbatim>\<open>GetIssuer\<close> and \<^verbatim>\<open>GetSubject\<close> fail with
  INVALID_ARGUMENT instead, while \<^verbatim>\<open>GetJwtId\<close>, written the same way, fails with NOT_FOUND.
\<close>

theorem GetIssuer_GetSubject_absent_not_NOT_FOUND:
  "GetIssuer (RawJwt Map.empty) = Inl (Status INVALID_ARGUMENT ''No Issuer found'') \<and>
   GetSubject (RawJwt Map.empty) = Inl (Status INVALID_ARGUMENT ''No Subject found'') \<and>
   GetJwtId (RawJwt Map.empty) = Inl (Status NOT_FOUND ''No JwtId found'')"
  by (simp add: GetIssuer_def GetSubject_def GetJwtId_def)

section \<open>The builder\<close>

text \<open>The whole seconds of a timestamp are the floor of its value in seconds.\<close>

lemma floor_unix_time: "valid_Time t \<Longrightarrow> \<lfloor>unix_time t\<rfloor> = rep_hi t"
proof -
  assume v: "valid_Time t"
  then have lo: "real (rep_lo t) < real kTicksPerSecond"
    by (simp add: valid_Time_def)
  have pos: "0 < real kTicksPerSecond" by (simp add: kTicksPerSecond_def)
  have f0: "0 \<le> real (rep_lo t) / real kTicksPerSecond" by simp
  have f1: "real (rep_lo t) / real kTicksPerSecond < 1"
    using lo pos by simp
  show ?thesis
    unfolding unix_time_def using f0 f1 by (intro floor_unique) simp_all
qed

lemma static_cast_int_in_range:
  "- (2 ^ 31) \<le> x \<Longrightarrow> x < 2 ^ 31 \<Longrightarrow> static_cast_int x = x"
  by (simp add: static_cast_int_def)

lemma time_setters_store:
  "builder_json_proto (SetExpiration t b) ''exp'' =
     Some (NumberValue (real_of_int (static_cast_int (ToUnixSeconds t))))"
  "builder_json_proto (SetNotBefore t b) ''nbf'' =
     Some (NumberValue (real_of_int (static_cast_int (ToUnixSeconds t))))"
  "builder_json_proto (SetIssuedAt t b) ''iat'' =
     Some (NumberValue (real_of_int (static_cast_int (ToUnixSeconds t))))"
  by (simp_all add: SetExpiration_def SetNotBefore_def SetIssuedAt_def claim_names)

lemma stored_seconds_in_int_range:
  assumes "valid_Time t" "- (2 ^ 31) \<le> \<lfloor>unix_time t\<rfloor>" "\<lfloor>unix_time t\<rfloor> < 2 ^ 31"
  shows "static_cast_int (ToUnixSeconds t) = \<lfloor>unix_time t\<rfloor>"
  using assms by (simp add: floor_unix_time ToUnixSeconds_def static_cast_int_in_range)

text \<open>
  Claim C7, as stated, fails at one second before the epoch: \<^verbatim>\<open>SetExpiration\<close> returns the
  builder (it has no error result) with the number -1 stored under \<^verbatim>\<open>exp\<close>.
\<close>

theorem SetExpiration_negative_counterexample:
  "unix_time (FromUnixSeconds (- 1)) < 0 \<and>
   builder_json_proto (SetExpiration (FromUnixSeconds (- 1)) (RawJwtBuilder Map.empty)) ''exp''
     = Some (NumberValue (- 1))"
  by (simp add: unix_time_def FromUnixSeconds_def SetExpiration_def ToUnixSeconds_def
      static_cast_int_def claim_names)

text \<open>
  Claim C7, amended: for every timestamp \<open>t\<close> before the Unix epoch whose whole seconds fit
  a 32-bit \<^verbatim>\<open>int\<close>, each of \<^verbatim>\<open>SetExpiration\<close>, \<^verbatim>\<open>SetNotBefore\<close> and \<^verbatim>\<open>SetIssuedAt\<close> accepts
  the value: it returns the builder with the JSON number \<open>floor t\<close>, a negative number of
  seconds, stored under its claim name.
\<close>

theorem time_setters_accept_negative:
  assumes "valid_Time t" and "unix_time t < 0" and "- (2 ^ 31) \<le> \<lfloor>unix_time t\<rfloor>"
  shows "builder_json_proto (SetExpiration t b) ''exp'' = Some (NumberValue (real_of_int \<lfloor>unix_time t\<rfloor>)) \<and>
         builder_json_proto (SetNotBefore t b) ''nbf'' = Some (NumberValue (real_of_int \<lfloor>unix_time t\<rfloor>)) \<and>
         builder_json_proto (SetIssuedAt t b) ''iat'' = Some (NumberValue (real_of_int \<lfloor>unix_time t\<rfloor>))"
proof -
  from assms(2) have "\<lfloor>unix_time t\<rfloor> < 0" by linarith
  then have "\<lfloor>unix_time t\<rfloor> < 2 ^ 31" by simp
  with assms have "static_cast_int (ToUnixSeconds t) = \<lfloor>unix_time t\<rfloor>"
    by (intro stored_seconds_in_int_range)
  then show ?thesis by (simp add: time_setters_store)
qed

text \<open>The amended claim C7 at one and a half seconds before the epoch: the setters store -2.\<close>

theorem time_setters_accept_negative_witness:
  "builder_json_proto (SetExpiration \<lparr>rep_hi = - 2, rep_lo = 2000000000\<rparr> (RawJwtBuilder Map.empty)) ''exp''
     = Some (NumberValue (- 2)) \<and>
   builder_json_proto (SetNotBefore \<lparr>rep_hi = - 2, rep_lo = 2000000000\<rparr> (RawJwtBuilder Map.empty)) ''nbf''
     = Some (NumberValue (- 2)) \<and>
   builder_json_proto (SetIssuedAt \<lparr>rep_hi = - 2, rep_lo = 2000000000\<rparr> (RawJwtBuilder Map.empty)) ''iat''
     = Some (NumberValue (- 2))"
proof -
  let ?t = "\<lparr>rep_hi = - 2, rep_lo = 2000000000\<rparr>"
  have v: "valid_Time ?t" by (simp add: valid_Time_def kTicksPerSecond_def)
  have u: "unix_time ?t = - 3 / 2" by (simp add: unix_time_def kTicksPerSecond_def)
  have n: "unix_time ?t < 0" by (simp add: u)
  have f: "\<lfloor>unix_time ?t\<rfloor> = - 2" using floor_unix_time [OF v] by simp
  have r: "- (2 ^ 31) \<le> \<lfloor>unix_time ?t\<rfloor>" by (simp add: f)
  show ?thesis
    using time_setters_accept_negative [OF v n r, of "RawJwtBuilder Map.empty"] by (simp add: f)
qed

text \<open>
  Up to the last second a 32-bit \<^verbatim>\<open>int\<close> holds, the time setters store the floor of a
  timestamp at or after the epoch.
\<close>

lemma time_setters_store_floor_below_2038:
  assumes "valid_Time t" and "0 \<le> unix_time t" and "\<lfloor>unix_time t\<rfloor> < 2 ^ 31"
  shows "builder_json_proto (SetExpiration t b) ''exp'' = Some (NumberValue (real_of_int \<lfloor>unix_time t\<rfloor>))"
    and "builder_json_proto (SetNotBefore t b) ''nbf'' = Some (NumberValue (real_of_int \<lfloor>unix_time t\<rfloor>))"
    and "builder_json_proto (SetIssuedAt t b) ''iat'' = Some (NumberValue (real_of_int \<lfloor>unix_time t\<rfloor>))"
proof -
  from assms(2) have "0 \<le> \<lfloor>unix_time t\<rfloor>" by simp
  then have "- (2 ^ 31) \<le> \<lfloor>unix_time t\<rfloor>" by simp
  with assms have "static_cast_int (ToUnixSeconds t) = \<lfloor>unix_time t\<rfloor>"
    by (intro stored_seconds_in_int_range)
  then show "builder_json_proto (SetExpiration t b) ''exp'' = Some (NumberValue (real_of_int \<lfloor>unix_time t\<rfloor>))"
    and "builder_json_proto (SetNotBefore t b) ''nbf'' = Some (NumberValue (real_of_int \<lfloor>unix_time t\<rfloor>))"
    and "builder_json_proto (SetIssuedAt t b) ''iat'' = Some (NumberValue (real_of_int \<lfloor>unix_time t\<rfloor>))"
    by (simp_all add: time_setters_store)
qed

text \<open>
  Claim C8 says that for every timestamp \<open>t \<ge> 0\<close> the stored number is \<open>floor t\<close>. At
  \<open>t = 2147483648\<close> seconds (19 January 2038, 03:14:08 UTC) the floor is 2147483648, and the
  three setters store -2147483648: \<^verbatim>\<open>static_cast<int>\<close> keeps the low 32 bits of the seconds.
\<close>

theorem time_setters_wrap_in_2038:
  "valid_Time (FromUnixSeconds 2147483648) \<and>
   0 \<le> unix_time (FromUnixSeconds 2147483648) \<and>
   \<lfloor>unix_time (FromUnixSeconds 2147483648)\<rfloor> = 2147483648 \<and>
   builder_json_proto (SetExpiration (FromUnixSeconds 2147483648) (RawJwtBuilder Map.empty)) ''exp''
     = Some (NumberValue (- 2147483648)) \<and>
   builder_json_proto (SetNotBefore (FromUnixSeconds 2147483648) (RawJwtBuilder Map.empty)) ''nbf''
     = Some (NumberValue (- 2147483648)) \<and>
   builder_json_proto (SetIssuedAt (FromUnixSeconds 2147483648) (RawJwtBuilder Map.empty)) ''iat''
     = Some (NumberValue (- 2147483648))"
  by (simp add: unix_time_def FromUnixSeconds_def valid_Time_def kTicksPerSecond_def
      time_setters_store ToUnixSeconds_def static_cast_int_def)

text \<open>
  Claim C9, as stated, fails at the empty name: \<^verbatim>\<open>ValidatePayloadName\<close> only tests whether the
  name is registered, so \<^verbatim>\<open>AddStringClaim\<close> with the empty name succeeds and stores the claim.
\<close>

theorem AddStringClaim_empty_name_counterexample:
  "AddStringClaim [] ''v'' (RawJwtBuilder Map.empty) =
     (OkStatus, RawJwtBuilder (Map.empty([] \<mapsto> StringValue ''v''))) \<and>
   error_code (fst (AddStringClaim [] ''v'' (RawJwtBuilder Map.empty))) \<noteq> INVALID_ARGUMENT"
  by (simp add: AddStringClaim_def ValidatePayloadName_def IsRegisteredClaimName_def claim_names
      ok_def OkStatus_def)

text \<open>
  Claim C9, amended: for every name and every adder of a custom claim (\<^verbatim>\<open>AddNullClaim\<close>,
  \<^verbatim>\<open>AddBooleanClaim\<close>, \<^verbatim>\<open>AddStringClaim\<close>, \<^verbatim>\<open>AddNumberClaim\<close>, \<^verbatim>\<open>AddJsonObjectClaim\<close>,
  \<^verbatim>\<open>AddJsonArrayClaim\<close>): if the name is one of the seven registered claim names, the call
  fails with INVALID_ARGUMENT and leaves the builder as it was; for every other name, the
  empty name included, the call succeeds and stores the claim (for the last two adders, given
  that the JSON text parses).
\<close>

theorem custom_claim_adders:
  "(name \<in> {''iss'', ''sub'', ''aud'', ''exp'', ''nbf'', ''iat'', ''jti''} \<longrightarrow>
      error_code (fst (AddNullClaim name b)) = INVALID_ARGUMENT \<and> snd (AddNullClaim name b) = b \<and>
      error_code (fst (AddBooleanClaim name bv b)) = INVALID_ARGUMENT \<and> snd (AddBooleanClaim name bv b) = b \<and>
      error_code (fst (AddStringClaim name sv b)) = INVALID_ARGUMENT \<and> snd (AddStringClaim name sv b) = b \<and>
      error_code (fst (AddNumberClaim name dv b)) = INVALID_ARGUMENT \<and> snd (AddNumberClaim name dv b) = b \<and>
      error_code (fst (AddJsonObjectClaim J name json_text b)) = INVALID_ARGUMENT \<and>
        snd (AddJsonObjectClaim J name json_text b) = b \<and>
      error_code (fst (AddJsonArrayClaim J name json_text b)) = INVALID_ARGUMENT \<and>
        snd (AddJsonArrayClaim J name json_text b) = b) \<and>
   (name \<notin> {''iss'', ''sub'', ''aud'', ''exp'', ''nbf'', ''iat'', ''jti''} \<longrightarrow>
      AddNullClaim name b = (OkStatus, RawJwtBuilder ((builder_json_proto b)(name \<mapsto> NullValue))) \<and>
      AddBooleanClaim name bv b =
        (OkStatus, RawJwtBuilder ((builder_json_proto b)(name \<mapsto> BoolValue bv))) \<and>
      AddStringClaim name sv b =
        (OkStatus, RawJwtBuilder ((builder_json_proto b)(name \<mapsto> StringValue sv))) \<and>
      AddNumberClaim name dv b =
        (OkStatus, RawJwtBuilder ((builder_json_proto b)(name \<mapsto> NumberValue dv))) \<and>
      (\<forall>proto. JsonStringToProtoStruct J json_text = Inr proto \<longrightarrow>
         AddJsonObjectClaim J name json_text b =
           (OkStatus, RawJwtBuilder ((builder_json_proto b)(name \<mapsto> StructValue proto)))) \<and>
      (\<forall>list. JsonStringToProtoList J json_text = Inr list \<longrightarrow>
         AddJsonArrayClaim J name json_text b =
           (OkStatus, RawJwtBuilder ((builder_json_proto b)(name \<mapsto> ListValue list)))))"
proof (intro conjI impI allI)
  assume "name \<in> {''iss'', ''sub'', ''aud'', ''exp'', ''nbf'', ''iat'', ''jti''}"
  then have r: "IsRegisteredClaimName name" by (simp add: IsRegisteredClaimName_iff)
  note v = ValidatePayloadName_registered [OF r]
  show "error_code (fst (AddNullClaim name b)) = INVALID_ARGUMENT" "snd (AddNullClaim name b) = b"
    "error_code (fst (AddBooleanClaim name bv b)) = INVALID_ARGUMENT" "snd (AddBooleanClaim name bv b) = b"
    "error_code (fst (AddStringClaim name sv b)) = INVALID_ARGUMENT" "snd (AddStringClaim name sv b) = b"
    "error_code (fst (AddNumberClaim name dv b)) = INVALID_ARGUMENT" "snd (AddNumberClaim name dv b) = b"
    "error_code (fst (AddJsonObjectClaim J name json_text b)) = INVALID_ARGUMENT"
    "snd (AddJsonObjectClaim J name json_text b) = b"
    "error_code (fst (AddJsonArrayClaim J name json_text b)) = INVALID_ARGUMENT"
    "snd (AddJsonArrayClaim J name json_text b) = b"
    using v by (simp_all add: AddNullClaim_def AddBooleanClaim_def AddStringClaim_def
        AddNumberClaim_def AddJsonObjectClaim_def AddJsonArrayClaim_def Let_def)
next
  assume "name \<notin> {''iss'', ''sub'', ''aud'', ''exp'', ''nbf'', ''iat'', ''jti''}"
  then have r: "\<not> IsRegisteredClaimName name" by (simp add: IsRegisteredClaimName_iff)
  note v = ValidatePayloadName_custom [OF r]
  show "AddNullClaim name b = (OkStatus, RawJwtBuilder ((builder_json_proto b)(name \<mapsto> NullValue)))"
    "AddBooleanClaim name bv b = (OkStatus, RawJwtBuilder ((builder_json_proto b)(name \<mapsto> BoolValue bv)))"
    "AddStringClaim name sv b = (OkStatus, RawJwtBuilder ((builder_json_proto b)(name \<mapsto> StringValue sv)))"
    "AddNumberClaim name dv b = (OkStatus, RawJwtBuilder ((builder_json_proto b)(name \<mapsto> NumberValue dv)))"
    by (simp_all add: AddNullClaim_def AddBooleanClaim_def AddStringClaim_def
        AddNumberClaim_def v ok_OkStatus)
  show "AddJsonObjectClaim J name json_text b =
           (OkStatus, RawJwtBuilder ((builder_json_proto b)(name \<mapsto> StructValue proto)))"
    if "JsonStringToProtoStruct J json_text = Inr proto" for proto
    using that by (simp add: AddJsonObjectClaim_def v ok_OkStatus)
  show "AddJsonArrayClaim J name json_text b =
           (OkStatus, RawJwtBuilder ((builder_json_proto b)(name \<mapsto> ListValue list)))"
    if "JsonStringToProtoList J json_text = Inr list" for list
    using that by (simp add: AddJsonArrayClaim_def v ok_OkStatus)
qed

text \<open>
  The amended claim C9 at the registered names \<^verbatim>\<open>iss\<close> and \<^verbatim>\<open>aud\<close>, at the empty name and at
  two custom names, with the JSON codec of the examples.
\<close>

theorem custom_claim_adders_witness:
  "error_code (fst (AddStringClaim ''iss'' ''joe'' (RawJwtBuilder Map.empty))) = INVALID_ARGUMENT \<and>
   snd (AddJsonObjectClaim example_json_util ''aud'' ''{}'' (RawJwtBuilder Map.empty))
     = RawJwtBuilder Map.empty \<and>
   AddNullClaim [] (RawJwtBuilder Map.empty) = (OkStatus, RawJwtBuilder (Map.empty([] \<mapsto> NullValue))) \<and>
   AddJsonObjectClaim example_json_util ''obj'' ''{}'' (RawJwtBuilder Map.empty) =
     (OkStatus, RawJwtBuilder (Map.empty(''obj'' \<mapsto> StructValue Map.empty))) \<and>
   AddJsonArrayClaim example_json_util ''arr'' ''[]'' (RawJwtBuilder Map.empty) =
     (OkStatus, RawJwtBuilder (Map.empty(''arr'' \<mapsto> ListValue [])))"
  using
    custom_claim_adders [where name = "''iss''" and b = "RawJwtBuilder Map.empty" and sv = "''joe''"]
    custom_claim_adders [where name = "''aud''" and b = "RawJwtBuilder Map.empty"
      and J = example_json_util and json_text = "''{}''"]
    custom_claim_adders [where name = "[]" and b = "RawJwtBuilder Map.empty"]
    custom_claim_adders [where name = "''obj''" and b = "RawJwtBuilder Map.empty"
      and J = example_json_util and json_text = "''{}''"]
    custom_claim_adders [where name = "''arr''" and b = "RawJwtBuilder Map.empty"
      and J = example_json_util and json_text = "''[]''"]
  by (simp add: example_json_util_def example_payload_json_def example_header_json_def)

text \<open>
  Claim C10: for every builder state, \<^verbatim>\<open>RawJwtBuilder::Build\<close> succeeds: it returns no error,
  and the \<^verbatim>\<open>RawJwt\<close> it returns wraps the JSON object the builder has accumulated.
\<close>

theorem Build_always_succeeds:
  "Build b = Inr (RawJwt (builder_json_proto b)) \<and> (\<forall>status. Build b \<noteq> Inl status)"
  by (simp add: Build_def)

section \<open>Splitting a compact token\<close>

lemma find_last_of_None_iff: "find_last_of s c = None \<longleftrightarrow> c \<notin> set s"
  by (induction s) (auto split: option.splits)

lemma find_last_of_append:
  "c \<notin> set b \<Longrightarrow> find_last_of (a @ c # b) c = Some (length a)"
proof (induction a)
  case Nil
  then have "find_last_of b c = None" by (simp add: find_last_of_None_iff)
  then show ?case by simp
next
  case (Cons x a)
  then show ?case by simp
qed




lemma StrSplit_no_delimiter: "d \<notin> set a \<Longrightarrow> StrSplit a d = [a]"
  by (induction a) auto

lemma StrSplit_one_delimiter:
  "d \<notin> set a \<Longrightarrow> d \<notin> set b \<Longrightarrow> StrSplit (a @ d # b) d = [a, b]"
  by (induction a) (auto simp: StrSplit_no_delimiter)

text \<open>
  Every string with a dot is \<open>signing_input @ ''.'' @ encoded_tag\<close> for exactly one pair with
  no dot in \<open>encoded_tag\<close>. On such a string \<^verbatim>\<open>VerifyMacAndDecode\<close> runs its checks in this
  order: the tag decodes, the MAC verifies over the signing input, the signing input has two
  parts, the header validates, the payload decodes, the JSON parses, the validator accepts.
\<close>

lemma VerifyMacAndDecode_at_last_dot:
  assumes "CHR ''.'' \<notin> set encoded_tag"
  shows "VerifyMacAndDecode F J this (signing_input @ CHR ''.'' # encoded_tag) validator =
     (case DecodeSignature F encoded_tag of
        None \<Rightarrow> Inl (Status INVALID_ARGUMENT ''invalid JWT MAC'')
      | Some mac_value \<Rightarrow>
          if \<not> ok (VerifyMac (mac this) mac_value signing_input)
          then Inl (VerifyMac (mac this) mac_value signing_input)
          else if length (StrSplit signing_input (CHR ''.'')) \<noteq> 2
          then Inl (Status INVALID_ARGUMENT
                 ''only tokens in JWS compact serialization format are supported'')
          else if \<not> ok (ValidateHeader F (StrSplit signing_input (CHR ''.'') ! 0) (algorithm this))
          then Inl (ValidateHeader F (StrSplit signing_input (CHR ''.'') ! 0) (algorithm this))
          else
            case DecodePayload F (StrSplit signing_input (CHR ''.'') ! 1) of
              None \<Rightarrow> Inl (Status INVALID_ARGUMENT ''invalid JWT payload'')
            | Some json_payload \<Rightarrow>
                (case FromString J json_payload of
                   Inl status \<Rightarrow> Inl status
                 | Inr raw_jwt \<Rightarrow>
                     if \<not> ok (Validate validator raw_jwt) then Inl (Validate validator raw_jwt)
                     else Inr (VerifiedJwt raw_jwt)))"
proof -
  have "find_last_of (signing_input @ CHR ''.'' # encoded_tag) (CHR ''.'') = Some (length signing_input)"
    using assms by (rule find_last_of_append)
  then show ?thesis
    by (simp add: VerifyMacAndDecode_def substr_def substr_from_def Let_def
        split: option.splits sum.splits)
qed








section \<open>The example token, evaluated\<close>

lemmas base64url_simps =
  base64url_digit_def base64url_alphabet_def base64url_decode_def strip_padding_def
  base64url_value_def byte_of_nat_def Let_def

lemma example_header_enc: "spec_CreateHeader ''HS256'' = ''eyJhbGciOiJIUzI1NiIsInR5cCI6IkpXVCJ9''"
  by (simp add: spec_CreateHeader_def base64url_simps)

lemma example_payload_enc:
  "base64url_encode example_payload_json = ''eyJleHAiOjEzMDA4MTkzODAsImlzcyI6ImpvZSJ9''"
  by (simp add: example_payload_json_def base64url_simps)

lemma example_ToString:
  "ToString example_json_util (RawJwt example_claims) = Inr example_payload_json"
  by (simp add: ToString_def example_json_util_def)

lemma example_FromString:
  "FromString example_json_util example_payload_json = Inr (RawJwt example_claims)"
  by (simp add: FromString_def example_json_util_def)

lemma example_CreateHeader:
  "CreateHeader example_format ''HS256'' = ''eyJhbGciOiJIUzI1NiIsInR5cCI6IkpXVCJ9''"
  by (simp add: example_format_def spec_jwt_format_def example_header_enc)

lemma example_EncodePayload:
  "EncodePayload example_format example_payload_json = ''eyJleHAiOjEzMDA4MTkzODAsImlzcyI6ImpvZSJ9''"
  by (simp add: example_format_def spec_jwt_format_def example_payload_enc)

lemma example_checksum:
  "checksum_tag ''secret-key-0123456789abcdef-0123'' 32 example_unsigned_token = example_tag"
  by (simp add: checksum_tag_def example_unsigned_token_def example_tag_def byte_of_nat_def
      upt_rec)

lemma example_EncodeSignature:
  "EncodeSignature example_format example_tag = ''rLO6wcjP1t3k6_L5AAcOFRwjKjE4P0ZNVFtiaXB3foU''"
  by (simp add: example_format_def spec_jwt_format_def example_tag_def base64url_simps)

lemma example_DecodeSignature:
  "DecodeSignature example_format ''rLO6wcjP1t3k6_L5AAcOFRwjKjE4P0ZNVFtiaXB3foU'' = Some example_tag"
  by (simp add: example_format_def spec_jwt_format_def example_tag_def base64url_simps)



lemma example_DecodePayload:
  "DecodePayload example_format ''eyJleHAiOjEzMDA4MTkzODAsImlzcyI6ImpvZSJ9'' = Some example_payload_json"
  by (simp add: example_format_def spec_jwt_format_def example_payload_json_def base64url_simps)

lemma example_ValidateHeader:
  "ValidateHeader example_format ''eyJhbGciOiJIUzI1NiIsInR5cCI6IkpXVCJ9'' ''HS256'' = OkStatus"
  by (simp add: example_format_def spec_jwt_format_def spec_ValidateHeader_def
      example_json_util_def example_header_def example_header_json_def example_payload_json_def
      base64url_simps)

lemma example_Validate:
  "Validate example_validator (RawJwt example_claims) = OkStatus"
  by (simp add: example_validator_def spec_validator_def spec_Validate_def
      check_expiration_def check_not_before_def check_issuer_def check_subject_def
      check_audience_def check_issued_at_def HasExpiration_def HasNotBefore_def HasIssuedAt_def
      GetExpiration_def claim_names example_claims_def FromUnixSeconds_def double_to_int64_def
      time_less_def add_seconds_def ok_OkStatus)

lemma example_algorithm: "algorithm example_jwt_mac = ''HS256''"
  by (simp add: example_jwt_mac_def)

lemma example_mac:
  "ComputeMac (mac example_jwt_mac) example_unsigned_token = Inr example_tag"
  "VerifyMac (mac example_jwt_mac) example_tag example_unsigned_token = OkStatus"
  by (simp_all add: example_jwt_mac_def checksum_mac_def example_checksum)



lemma example_decode_AAAA:
  "DecodeSignature example_format ''AAAA'' = Some [CHR 0x00, CHR 0x00, CHR 0x00]"
  by (simp add: example_format_def spec_jwt_format_def base64url_simps)

lemma example_mac_rejects_short_tag:
  "VerifyMac (mac example_jwt_mac) [CHR 0x00, CHR 0x00, CHR 0x00] m =
     Status INVALID_ARGUMENT ''verification failed''"
proof -
  have "[CHR 0x00, CHR 0x00, CHR 0x00] \<noteq> checksum_tag ''secret-key-0123456789abcdef-0123'' 32 m"
  proof
    assume e: "[CHR 0x00, CHR 0x00, CHR 0x00] = checksum_tag ''secret-key-0123456789abcdef-0123'' 32 m"
    have "length [CHR 0x00, CHR 0x00, CHR 0x00] =
            length (checksum_tag ''secret-key-0123456789abcdef-0123'' 32 m)"
      by (simp only: e)
    then show False by (simp add: checksum_tag_def)
  qed
  then show ?thesis by (simp add: example_jwt_mac_def checksum_mac_def)
qed



lemma example_produced:
  "ComputeMacAndEncode example_format example_json_util example_jwt_mac (RawJwt example_claims)
     = Inr example_token"
proof -
  have u: "CreateHeader example_format ''HS256'' @ ''.'' @
             EncodePayload example_format example_payload_json = example_unsigned_token"
    by (simp add: example_CreateHeader example_EncodePayload example_unsigned_token_def)
  show ?thesis
    unfolding ComputeMacAndEncode_def example_algorithm example_ToString Let_def
    by (simp only: sum.case u example_mac example_EncodeSignature example_token_def) simp
qed










section \<open>JwtMacImpl\<close>

text \<open>
  Claim C3: in \<^verbatim>\<open>VerifyMacAndDecode\<close> the MAC is verified over the signing input before the
  header or the payload is parsed. For every compact string whose segment after the last dot
  decodes as a tag and whose MAC does not verify over the part before that dot, the result
  is the status the MAC verification returned. The header validation, the payload decoder,
  the JSON parser and the validator are arbitrary here, so the result stands also when the
  header or the payload is malformed or the header breaks its contract.
\<close>

theorem mac_verified_before_header_and_payload:
  assumes "CHR ''.'' \<notin> set encoded_tag"
    and "DecodeSignature F encoded_tag = Some tag"
    and "\<not> ok (VerifyMac (mac this) tag signing_input)"
  shows "VerifyMacAndDecode F J this (signing_input @ ''.'' @ encoded_tag) validator =
           Inl (VerifyMac (mac this) tag signing_input)"
  using assms by (simp add: VerifyMacAndDecode_at_last_dot)

text \<open>
  Claim C3 at a token whose header is not base64url and whose payload is not JSON: the tag
  \<open>AAAA\<close> decodes to three bytes, the MAC of the examples refuses it, and that refusal is
  the result.
\<close>

theorem mac_verified_before_header_and_payload_witness:
  "VerifyMacAndDecode example_format example_json_util example_jwt_mac
       ''{not base64}.{not json}.AAAA'' example_validator
     = Inl (Status INVALID_ARGUMENT ''verification failed'')"
proof -
  have d: "CHR ''.'' \<notin> set ''AAAA''" by simp
  have n: "\<not> ok (VerifyMac (mac example_jwt_mac) [CHR 0x00, CHR 0x00, CHR 0x00]
             ''{not base64}.{not json}'')"
    by (simp add: example_mac_rejects_short_tag ok_def)
  from mac_verified_before_header_and_payload [OF d example_decode_AAAA n]
  show ?thesis by (simp add: example_mac_rejects_short_tag)
qed




text \<open>
  Claim C1: for every MAC handle (a key bound to an algorithm) and every claim set \<open>c\<close> for
  which \<^verbatim>\<open>ComputeMacAndEncode\<close> produces a compact token, \<^verbatim>\<open>VerifyMacAndDecode\<close> of that
  token, under a validator that accepts \<open>c\<close> (its time window includes the token's times),
  succeeds and yields the \<^verbatim>\<open>VerifiedJwt\<close> of \<open>c\<close>. The collaborators that are not among the
  sources enter through their contracts at this token: the MAC accepts the tag it computed;
  the base64url encodings have no dot and decode to what was encoded; the header built for
  the algorithm validates against it; the JSON parser reads the serialised claims back as
  \<open>c\<close>.
\<close>

theorem compute_then_verify_round_trip:
  assumes json_out: "ToString J c = Inr payload"
    and mac_out: "ComputeMac (mac this)
                    (CreateHeader F (algorithm this) @ ''.'' @ EncodePayload F payload) = Inr tag"
    and mac_correct: "ok (VerifyMac (mac this) tag
                    (CreateHeader F (algorithm this) @ ''.'' @ EncodePayload F payload))"
    and no_dots: "CHR ''.'' \<notin> set (CreateHeader F (algorithm this))"
                 "CHR ''.'' \<notin> set (EncodePayload F payload)"
                 "CHR ''.'' \<notin> set (EncodeSignature F tag)"
    and decode_encode: "DecodePayload F (EncodePayload F payload) = Some payload"
                       "DecodeSignature F (EncodeSignature F tag) = Some tag"
    and header_ok: "ok (ValidateHeader F (CreateHeader F (algorithm this)) (algorithm this))"
    and json_in: "FromString J payload = Inr c"
    and validator_accepts: "ok (Validate validator c)"
  shows "\<exists>compact_token.
           ComputeMacAndEncode F J this c = Inr compact_token \<and>
           VerifyMacAndDecode F J this compact_token validator = Inr (VerifiedJwt c)"
proof -
  let ?h = "CreateHeader F (algorithm this)"
  let ?p = "EncodePayload F payload"
  let ?s = "EncodeSignature F tag"
  have produced: "ComputeMacAndEncode F J this c = Inr ((?h @ ''.'' @ ?p) @ ''.'' @ ?s)"
    using json_out mac_out by (simp add: ComputeMacAndEncode_def)
  have parts: "StrSplit (?h @ ''.'' @ ?p) (CHR ''.'') = [?h, ?p]"
    using StrSplit_one_delimiter [OF no_dots(1) no_dots(2)] by simp
  have "VerifyMacAndDecode F J this ((?h @ ''.'' @ ?p) @ CHR ''.'' # ?s) validator =
      Inr (VerifiedJwt c)"
    by (subst VerifyMacAndDecode_at_last_dot [OF no_dots(3)], unfold parts)
      (use mac_correct decode_encode header_ok json_in validator_accepts in simp)
  with produced show ?thesis by simp
qed

text \<open>
  Claim C1 at the example token: the claims \<^verbatim>\<open>exp\<close> = 1300819380 and \<^verbatim>\<open>iss\<close> = joe are
  encoded under HS256 and verified at the fixed time 12345.
\<close>

theorem compute_then_verify_round_trip_witness:
  "ComputeMacAndEncode example_format example_json_util example_jwt_mac (RawJwt example_claims)
     = Inr example_token \<and>
   VerifyMacAndDecode example_format example_json_util example_jwt_mac example_token
       example_validator
     = Inr (VerifiedJwt (RawJwt example_claims))"
proof -
  note alg = example_algorithm
  have u: "CreateHeader example_format (algorithm example_jwt_mac) @ ''.'' @
             EncodePayload example_format example_payload_json = example_unsigned_token"
    by (simp add: alg example_CreateHeader example_EncodePayload example_unsigned_token_def)
  have mac_out: "ComputeMac (mac example_jwt_mac)
      (CreateHeader example_format (algorithm example_jwt_mac) @ ''.'' @
       EncodePayload example_format example_payload_json) = Inr example_tag"
    unfolding u by (rule example_mac)
  have mac_correct: "ok (VerifyMac (mac example_jwt_mac) example_tag
      (CreateHeader example_format (algorithm example_jwt_mac) @ ''.'' @
       EncodePayload example_format example_payload_json))"
    unfolding u by (simp add: example_mac ok_OkStatus)
  have d1: "CHR ''.'' \<notin> set (CreateHeader example_format (algorithm example_jwt_mac))"
    by (simp add: alg example_CreateHeader)
  have d2: "CHR ''.'' \<notin> set (EncodePayload example_format example_payload_json)"
    by (simp add: example_EncodePayload)
  have d3: "CHR ''.'' \<notin> set (EncodeSignature example_format example_tag)"
    by (simp add: example_EncodeSignature)
  have r1: "DecodePayload example_format (EncodePayload example_format example_payload_json)
      = Some example_payload_json"
    by (simp add: example_EncodePayload example_DecodePayload)
  have r2: "DecodeSignature example_format (EncodeSignature example_format example_tag)
      = Some example_tag"
    by (simp add: example_EncodeSignature example_DecodeSignature)
  have h: "ok (ValidateHeader example_format
      (CreateHeader example_format (algorithm example_jwt_mac)) (algorithm example_jwt_mac))"
    by (simp add: alg example_CreateHeader example_ValidateHeader ok_OkStatus)
  have v: "ok (Validate example_validator (RawJwt example_claims))"
    by (simp add: example_Validate ok_OkStatus)
  from compute_then_verify_round_trip
    [OF example_ToString mac_out mac_correct d1 d2 d3 r1 r2 h example_FromString v]
  show ?thesis by (simp add: example_produced)
qed




end
